theory Spec2Isabelle
  imports Complex_Main "HOL-Library.Sublist"
begin

section \<open>Numbers and values of the host language\<close>

text \<open>
  The calculation engine works on JavaScript numbers. A finite number is modelled by an exact
  rational; the three non-finite numbers are kept apart because \<open>evaluateExpression\<close>
  tests for them. Arithmetic on finite numbers is therefore exact in this development:
  binary rounding error and overflow of IEEE doubles are outside the model.
\<close>

datatype jsnum = Finite rat | NaN | PosInfinity | NegInfinity

text \<open>
  The values a caller can store in \<open>item.price\<close> and \<open>member.advance\<close>:
  the application stores the number \<open>0\<close> for a new member and the raw text of an
  input field afterwards. \<open>JObject\<close> stands for any value without a \<open>trim\<close> method
  that is neither a number nor a string.
\<close>

datatype jsval = JUndefined | JNull | JNum jsnum | JStr string | JObject

datatype error = Error string | TypeError string

text \<open>\<open>!v\<close> is true exactly when \<open>v\<close> is not truthy.\<close>

fun truthy :: "jsval \<Rightarrow> bool" where
  "truthy JUndefined = False"
| "truthy JNull = False"
| "truthy (JNum (Finite q)) = (q \<noteq> 0)"
| "truthy (JNum NaN) = False"
| "truthy (JNum PosInfinity) = True"
| "truthy (JNum NegInfinity) = True"
| "truthy (JStr s) = (s \<noteq> [])"
| "truthy JObject = True"

text \<open>
  What running \<open>new Function(body)()\<close> does: it throws (a syntax error when the function
  is built, or an error while the body runs) or it returns a value. The evaluator belongs to
  the JavaScript runtime, not to the repository, so the engine's functions take it as a
  parameter.
\<close>

datatype completion = Threw | Returned jsval

type_synonym evaluator = "string \<Rightarrow> completion"

section \<open>Expression parsing\<close>

definition isWhiteSpace :: "char \<Rightarrow> bool" where
  "isWhiteSpace c \<longleftrightarrow> c \<in> set [CHR '' '', CHR 0x09, CHR 0x0A, CHR 0x0B, CHR 0x0C, CHR 0x0D]"

definition trim :: "string \<Rightarrow> string" where
  "trim s = rev (dropWhile isWhiteSpace (rev (dropWhile isWhiteSpace s)))"

definition isDigit :: "char \<Rightarrow> bool" where
  "isDigit c \<longleftrightarrow> c \<in> set ''0123456789''"

text \<open>The character class \<open>[\d+\-*/().]\<close>.\<close>

definition isAllowed :: "char \<Rightarrow> bool" where
  "isAllowed c \<longleftrightarrow> isDigit c \<or> c \<in> set ''+-*/().''"

text \<open>
  \<open>expression.toString().replace(/[,\s]/g, '').replace(/[^\d+\-*/().]/g, '')\<close>
\<close>

definition cleanExpression :: "string \<Rightarrow> string" where
  "cleanExpression s =
     filter isAllowed (filter (\<lambda>c. \<not> (c = CHR '','' \<or> isWhiteSpace c)) s)"

text \<open>The loop of \<open>isValidExpression\<close> over the characters, with its running counter.\<close>

fun parenthesesBalanced :: "int \<Rightarrow> string \<Rightarrow> bool" where
  "parenthesesBalanced n [] = (n = 0)"
| "parenthesesBalanced n (c # cs) =
     (let n1 = (if c = CHR ''('' then n + 1 else n);
          n2 = (if c = CHR '')'' then n1 - 1 else n1)
      in if n2 < 0 then False else parenthesesBalanced n2 cs)"

definition isValidExpression :: "string \<Rightarrow> bool" where
  "isValidExpression e =
     (if \<not> (e \<noteq> [] \<and> list_all (\<lambda>c. isAllowed c \<or> isWhiteSpace c) e) then False
      else parenthesesBalanced 0 e)"

text \<open>
  \<open>evaluateExpression\<close>: whatever is thrown inside, and a result that is not a finite
  number, becomes the error \<open>Expression evaluation failed\<close>.
\<close>

definition evaluateExpression :: "evaluator \<Rightarrow> string \<Rightarrow> error + rat" where
  "evaluateExpression run e =
     (case run (''return ('' @ e @ '')'') of
        Threw \<Rightarrow> Inl (Error ''Expression evaluation failed'')
      | Returned (JNum (Finite q)) \<Rightarrow> Inr q
      | Returned _ \<Rightarrow> Inl (Error ''Expression evaluation failed''))"

subsection \<open>Rounding\<close>

text \<open>The settings made by the constructor; nothing in the repository changes them.\<close>

datatype roundingMethod = RoundHalfUp | Floor | Ceil

definition precision :: nat where
  "precision = 2"

definition roundingMethod :: roundingMethod where
  "roundingMethod = RoundHalfUp"

text \<open>\<open>Math.round\<close> rounds to the nearest integer, a half towards plus infinity.\<close>

definition Math_round :: "rat \<Rightarrow> rat" where
  "Math_round x = of_int \<lfloor>x + 1 / 2\<rfloor>"

definition roundNumber :: "rat \<Rightarrow> rat" where
  "roundNumber number =
     (let factor = 10 ^ precision
      in case roundingMethod of
           Floor \<Rightarrow> of_int \<lfloor>number * factor\<rfloor> / factor
         | Ceil \<Rightarrow> of_int \<lceil>number * factor\<rceil> / factor
         | RoundHalfUp \<Rightarrow> Math_round (number * factor) / factor)"

subsection \<open>parseExpression\<close>

text \<open>
  The body of the \<open>try\<close> block. A number that is truthy has no \<open>trim\<close> method, so the
  call \<open>expression.trim()\<close> throws a type error there; so does any other truthy value
  that is not a string.
\<close>

definition parseExpression_try :: "evaluator \<Rightarrow> jsval \<Rightarrow> error + rat" where
  "parseExpression_try run expression =
     (if \<not> truthy expression then Inr 0
      else case expression of
        JStr s \<Rightarrow>
          (if trim s = [] then Inr 0
           else let cleaned = cleanExpression s
                in if cleaned = [] then Inr 0
                   else if \<not> isValidExpression cleaned then Inl (Error ''Invalid expression'')
                   else (case evaluateExpression run cleaned of
                           Inl e \<Rightarrow> Inl e
                         | Inr result \<Rightarrow> Inr (roundNumber result)))
      | _ \<Rightarrow> Inl (TypeError ''expression.trim is not a function''))"

text \<open>The \<open>catch\<close> clause turns every error into the result \<open>0\<close>.\<close>

definition parseExpression :: "evaluator \<Rightarrow> jsval \<Rightarrow> rat" where
  "parseExpression run expression =
     (case parseExpression_try run expression of
        Inl e \<Rightarrow> 0
      | Inr r \<Rightarrow> r)"

section \<open>An evaluator for plain arithmetic\<close>

text \<open>
  An instance of the evaluator parameter, used where a concrete input has to be run. It
  covers the texts built from decimal literals (a digit before the point, no leading zero
  before further digits), the binary operators \<open>+ - * /\<close> with their usual precedence
  and left associativity, a prefix sign, and parentheses; a division by zero gives a
  non-finite number. Texts with \<open>++\<close> or \<open>--\<close> are rejected, as the runtime rejects them.
  Every other text is reported as thrown; for such a text (a comment, \<open>**\<close>, a literal
  with a leading zero) this evaluator says nothing about the runtime.
\<close>

datatype token = TNum rat | TPlus | TMinus | TTimes | TDivide | TOpen | TClose

datatype lexing = Idle | Whole rat | Fraction rat rat

definition digitValue :: "char \<Rightarrow> rat" where
  "digitValue c = of_nat (of_char c - 48)"

definition flush :: "lexing \<Rightarrow> token list" where
  "flush l = (case l of Idle \<Rightarrow> [] | Whole n \<Rightarrow> [TNum n] | Fraction n scale \<Rightarrow> [TNum n])"

definition punctuator :: "char \<Rightarrow> token option" where
  "punctuator c =
     (if c = CHR ''+'' then Some TPlus
      else if c = CHR ''-'' then Some TMinus
      else if c = CHR ''*'' then Some TTimes
      else if c = CHR ''/'' then Some TDivide
      else if c = CHR ''('' then Some TOpen
      else if c = CHR '')'' then Some TClose
      else None)"

fun tokenize :: "lexing \<Rightarrow> string \<Rightarrow> token list option" where
  "tokenize l [] = Some (flush l)"
| "tokenize l (c # cs) =
     (if isDigit c then
        (case l of
           Idle \<Rightarrow> tokenize (Whole (digitValue c)) cs
         | Whole n \<Rightarrow> if n = 0 then None
                     else tokenize (Whole (n * 10 + digitValue c)) cs
         | Fraction n scale \<Rightarrow> tokenize (Fraction (n + digitValue c * scale) (scale / 10)) cs)
      else if c = CHR ''.'' then
        (case l of
           Whole n \<Rightarrow> tokenize (Fraction n (1 / 10)) cs
         | _ \<Rightarrow> None)
      else if (c = CHR ''+'' \<or> c = CHR ''-'') \<and> take 1 cs = [c] then None
      else
        (case punctuator c of
           None \<Rightarrow> None
         | Some t \<Rightarrow> (case tokenize Idle cs of
                        None \<Rightarrow> None
                      | Some ts \<Rightarrow> Some (flush l @ t # ts))))"

fun js_add :: "jsnum \<Rightarrow> jsnum \<Rightarrow> jsnum" where
  "js_add (Finite a) (Finite b) = Finite (a + b)"
| "js_add NaN y = NaN"
| "js_add x NaN = NaN"
| "js_add PosInfinity NegInfinity = NaN"
| "js_add NegInfinity PosInfinity = NaN"
| "js_add PosInfinity y = PosInfinity"
| "js_add NegInfinity y = NegInfinity"
| "js_add x PosInfinity = PosInfinity"
| "js_add x NegInfinity = NegInfinity"

fun js_negate :: "jsnum \<Rightarrow> jsnum" where
  "js_negate (Finite a) = Finite (- a)"
| "js_negate NaN = NaN"
| "js_negate PosInfinity = NegInfinity"
| "js_negate NegInfinity = PosInfinity"

definition signedInfinity :: "bool \<Rightarrow> jsnum" where
  "signedInfinity negative = (if negative then NegInfinity else PosInfinity)"

fun isNegative :: "jsnum \<Rightarrow> bool" where
  "isNegative (Finite a) = (a < 0)"
| "isNegative NegInfinity = True"
| "isNegative x = False"

fun js_multiply :: "jsnum \<Rightarrow> jsnum \<Rightarrow> jsnum" where
  "js_multiply (Finite a) (Finite b) = Finite (a * b)"
| "js_multiply NaN y = NaN"
| "js_multiply x NaN = NaN"
| "js_multiply x y =
     (if x = Finite 0 \<or> y = Finite 0 then NaN
      else signedInfinity (isNegative x \<noteq> isNegative y))"

fun js_divide :: "jsnum \<Rightarrow> jsnum \<Rightarrow> jsnum" where
  "js_divide NaN y = NaN"
| "js_divide x NaN = NaN"
| "js_divide (Finite a) (Finite b) =
     (if b \<noteq> 0 then Finite (a / b)
      else if a = 0 then NaN
      else signedInfinity (a < 0))"
| "js_divide (Finite a) y = Finite 0"
| "js_divide x (Finite b) = signedInfinity (isNegative x \<noteq> (b < 0))"
| "js_divide x y = NaN"

datatype operator = Add | Subtract | Multiply | Divide | Negate | Plus | Open

fun binding :: "operator \<Rightarrow> nat" where
  "binding Add = 1"
| "binding Subtract = 1"
| "binding Multiply = 2"
| "binding Divide = 2"
| "binding Negate = 3"
| "binding Plus = 3"
| "binding Open = 0"

fun applyOperator :: "operator \<Rightarrow> jsnum list \<Rightarrow> jsnum list option" where
  "applyOperator Add (b # a # vs) = Some (js_add a b # vs)"
| "applyOperator Subtract (b # a # vs) = Some (js_add a (js_negate b) # vs)"
| "applyOperator Multiply (b # a # vs) = Some (js_multiply a b # vs)"
| "applyOperator Divide (b # a # vs) = Some (js_divide a b # vs)"
| "applyOperator Negate (a # vs) = Some (js_negate a # vs)"
| "applyOperator Plus (a # vs) = Some (a # vs)"
| "applyOperator opr vs = None"

text \<open>Apply the pending operators that bind at least as tightly as \<open>level\<close>.\<close>

fun reduce :: "nat \<Rightarrow> jsnum list \<Rightarrow> operator list \<Rightarrow> (jsnum list \<times> operator list) option" where
  "reduce level vs [] = Some (vs, [])"
| "reduce level vs (opr # oprs) =
     (if opr \<noteq> Open \<and> level \<le> binding opr
      then (case applyOperator opr vs of
              None \<Rightarrow> None
            | Some vs' \<Rightarrow> reduce level vs' oprs)
      else Some (vs, opr # oprs))"

definition pushBinary ::
  "operator \<Rightarrow> jsnum list \<Rightarrow> operator list \<Rightarrow> (jsnum list \<times> operator list) option" where
  "pushBinary opr vs oprs =
     (case reduce (binding opr) vs oprs of
        None \<Rightarrow> None
      | Some (vs', oprs') \<Rightarrow> Some (vs', opr # oprs'))"

text \<open>
  The operand and operator stacks, and whether an operand is expected next. A sign where
  an operand is expected is a prefix operator.
\<close>

fun evaluateTokens ::
  "token list \<Rightarrow> jsnum list \<Rightarrow> operator list \<Rightarrow> bool \<Rightarrow> jsnum option" where
  "evaluateTokens [] vs oprs expecting =
     (if expecting then None
      else case reduce 1 vs oprs of
             Some ([v], []) \<Rightarrow> Some v
           | _ \<Rightarrow> None)"
| "evaluateTokens (t # ts) vs oprs expecting =
     (if expecting then
        (case t of
           TNum n \<Rightarrow> evaluateTokens ts (Finite n # vs) oprs False
         | TOpen \<Rightarrow> evaluateTokens ts vs (Open # oprs) True
         | TMinus \<Rightarrow> evaluateTokens ts vs (Negate # oprs) True
         | TPlus \<Rightarrow> evaluateTokens ts vs (Plus # oprs) True
         | _ \<Rightarrow> None)
      else
        (case t of
           TPlus \<Rightarrow> (case pushBinary Add vs oprs of
                       None \<Rightarrow> None | Some (vs', oprs') \<Rightarrow> evaluateTokens ts vs' oprs' True)
         | TMinus \<Rightarrow> (case pushBinary Subtract vs oprs of
                       None \<Rightarrow> None | Some (vs', oprs') \<Rightarrow> evaluateTokens ts vs' oprs' True)
         | TTimes \<Rightarrow> (case pushBinary Multiply vs oprs of
                       None \<Rightarrow> None | Some (vs', oprs') \<Rightarrow> evaluateTokens ts vs' oprs' True)
         | TDivide \<Rightarrow> (case pushBinary Divide vs oprs of
                       None \<Rightarrow> None | Some (vs', oprs') \<Rightarrow> evaluateTokens ts vs' oprs' True)
         | TClose \<Rightarrow> (case reduce 1 vs oprs of
                       Some (vs', Open # oprs') \<Rightarrow> evaluateTokens ts vs' oprs' False
                     | _ \<Rightarrow> None)
         | _ \<Rightarrow> None))"

definition arithmetic :: evaluator where
  "arithmetic body =
     (if take 7 body \<noteq> ''return '' then Threw
      else case tokenize Idle (drop 7 body) of
             None \<Rightarrow> Threw
           | Some ts \<Rightarrow> (case evaluateTokens ts [] [] True of
                          None \<Rightarrow> Threw
                        | Some v \<Rightarrow> Returned (JNum v)))"

section \<open>The data model\<close>

record item =
  item_name :: string
  price :: jsval

text \<open>
  A member as the caller holds it. \<open>items\<close> may be missing (\<open>member.items || []\<close>);
  \<open>bankInfo\<close> is carried along and never inspected.
\<close>

record member =
  member_id :: string
  member_name :: string
  member_items :: "item list option"
  member_advance :: jsval
  member_bankInfo :: jsval

text \<open>The object built for each member by \<open>calculateMemberCosts\<close>.\<close>

record memberCost =
  mc_id :: string
  mc_name :: string
  mc_items :: "item list"
  mc_advance :: rat
  mc_bankInfo :: jsval
  mc_totalSpent :: rat
  mc_itemCount :: nat

datatype status = needs_to_pay | gets_refund | even_status

text \<open>The same object after \<open>calculateFinalAmounts\<close> has copied it and added three fields.\<close>

record memberCalculation =
  calc_id :: string
  name :: string
  items :: "item list"
  advance :: rat
  bankInfo :: jsval
  totalSpent :: rat
  itemCount :: nat
  amountPerPerson :: rat
  finalAmount :: rat
  status :: status

record totals =
  totalCost :: rat
  totalAdvance :: rat
  memberCount :: nat
  totalItems :: nat
  averageSpent :: rat
  costPerPerson :: rat
  remainingBalance :: rat

record summaryEntry =
  se_name :: string
  se_amount :: rat

record summary =
  needToPay :: "summaryEntry list"
  getRefund :: "summaryEntry list"
  evenMembers :: "summaryEntry list"
  totalNeedToPay :: rat
  totalRefund :: rat
  balanceCheck :: rat

record calculations =
  memberCalculations :: "memberCalculation list"
  calc_totals :: totals
  calc_summary :: summary

text \<open>
  A session as the engine and the analytics read it: the members (possibly missing) and,
  for a stored session, the totals computed earlier.
\<close>

record session =
  members :: "member list option"
  session_totals :: "totals option"

section \<open>The settlement pipeline\<close>

text \<open>\<open>x || 0\<close> on a number.\<close>

definition orZero :: "rat \<Rightarrow> rat" where
  "orZero x = (if x \<noteq> 0 then x else 0)"

definition calculateMemberCost :: "evaluator \<Rightarrow> member \<Rightarrow> memberCost" where
  "calculateMemberCost run m =
     (let its = (case member_items m of Some xs \<Rightarrow> xs | None \<Rightarrow> []);
          spent = fold (\<lambda>it total. total + orZero (parseExpression run (price it))) its 0
      in \<lparr> mc_id = member_id m,
           mc_name = member_name m,
           mc_items = its,
           mc_advance = orZero (parseExpression run (member_advance m)),
           mc_bankInfo = (if truthy (member_bankInfo m) then member_bankInfo m else JNull),
           mc_totalSpent = roundNumber spent,
           mc_itemCount = length its \<rparr>)"

definition calculateMemberCosts :: "evaluator \<Rightarrow> member list \<Rightarrow> memberCost list" where
  "calculateMemberCosts run ms = map (calculateMemberCost run) ms"

text \<open>
  The three sums are taken first, the per-person amounts are computed from the sums, and
  every numeric field is rounded at the end. The two counters are whole numbers, which
  rounding leaves as they are.
\<close>

definition calculateSessionTotals :: "memberCost list \<Rightarrow> totals" where
  "calculateSessionTotals mcs =
     (let cost = fold (\<lambda>m sum. sum + mc_totalSpent m) mcs 0;
          adv = fold (\<lambda>m sum. sum + mc_advance m) mcs 0;
          n = length mcs;
          itemsN = fold (\<lambda>m sum. sum + mc_itemCount m) mcs 0;
          perPerson = (if n > 0 then cost / of_nat n else 0)
      in \<lparr> totalCost = roundNumber cost,
           totalAdvance = roundNumber adv,
           memberCount = n,
           totalItems = itemsN,
           averageSpent = roundNumber perPerson,
           costPerPerson = roundNumber perPerson,
           remainingBalance = roundNumber (cost - adv) \<rparr>)"

text \<open>
  The status rule shared by the equal split and the custom split: given the share and the
  advance, the status and the final amount before rounding.
\<close>

definition settle :: "rat \<Rightarrow> rat \<Rightarrow> status \<times> rat" where
  "settle share adv =
     (let final = share - adv
      in if \<bar>final\<bar> < 1 / 100 then (even_status, 0)
         else if final > 0 then (needs_to_pay, final)
         else (gets_refund, \<bar>final\<bar>))"

definition finalise :: "memberCost \<Rightarrow> rat \<Rightarrow> memberCalculation" where
  "finalise m share =
     (let (st, final) = settle share (mc_advance m)
      in \<lparr> calc_id = mc_id m, name = mc_name m, items = mc_items m, advance = mc_advance m,
           bankInfo = mc_bankInfo m, totalSpent = mc_totalSpent m, itemCount = mc_itemCount m,
           amountPerPerson = roundNumber share,
           finalAmount = roundNumber final,
           status = st \<rparr>)"

definition calculateFinalAmounts :: "memberCost list \<Rightarrow> totals \<Rightarrow> memberCalculation list" where
  "calculateFinalAmounts mcs t = map (\<lambda>m. finalise m (costPerPerson t)) mcs"

definition generateSummary :: "memberCalculation list \<Rightarrow> totals \<Rightarrow> summary" where
  "generateSummary cs t =
     (let pay = filter (\<lambda>m. status m = needs_to_pay) cs;
          ref = filter (\<lambda>m. status m = gets_refund) cs;
          evn = filter (\<lambda>m. status m = even_status) cs;
          payTotal = roundNumber (fold (\<lambda>m sum. sum + finalAmount m) pay 0);
          refTotal = roundNumber (fold (\<lambda>m sum. sum + finalAmount m) ref 0)
      in \<lparr> needToPay = map (\<lambda>m. \<lparr> se_name = name m, se_amount = finalAmount m \<rparr>) pay,
           getRefund = map (\<lambda>m. \<lparr> se_name = name m, se_amount = finalAmount m \<rparr>) ref,
           evenMembers = map (\<lambda>m. \<lparr> se_name = name m, se_amount = 0 \<rparr>) evn,
           totalNeedToPay = payTotal,
           totalRefund = refTotal,
           balanceCheck = roundNumber (payTotal - refTotal) \<rparr>)"

text \<open>The advisory check; \<open>calculateSession\<close> calls it and drops the answer.\<close>

definition validateCalculations :: "memberCalculation list \<Rightarrow> totals \<Rightarrow> bool" where
  "validateCalculations cs t =
     (let totalAdvances = fold (\<lambda>m sum. sum + advance m) cs 0;
          needTotal = fold (\<lambda>m sum. sum + finalAmount m)
                        (filter (\<lambda>m. status m = needs_to_pay) cs) 0;
          difference = \<bar>(totalAdvances + needTotal) - totalCost t\<bar>
      in difference \<le> 1 / 100)"

text \<open>
  \<open>calculateSession\<close>. A missing session, missing members and an empty member list give
  the zeroed result. On the data of this model no step of the \<open>try\<close> block throws, so the
  function returns a result for every session.
\<close>

definition emptyCalculations :: calculations where
  "emptyCalculations =
     \<lparr> memberCalculations = [],
       calc_totals = calculateSessionTotals [],
       calc_summary = generateSummary [] (calculateSessionTotals []) \<rparr>"

definition calculateSession :: "evaluator \<Rightarrow> session option \<Rightarrow> calculations" where
  "calculateSession run sess =
     (case sess of
        None \<Rightarrow> emptyCalculations
      | Some s \<Rightarrow>
          (case members s of
             None \<Rightarrow> emptyCalculations
           | Some ms \<Rightarrow>
               if length ms = 0 then emptyCalculations
               else let mcs = calculateMemberCosts run ms;
                        t = calculateSessionTotals mcs;
                        finalCalculations = calculateFinalAmounts mcs t;
                        smry = generateSummary finalCalculations t;
                        checked = validateCalculations finalCalculations t
                    in \<lparr> memberCalculations = finalCalculations,
                         calc_totals = t,
                         calc_summary = smry \<rparr>))"

section \<open>Custom percentage split\<close>

text \<open>
  The percentages object is an association list from member id to number; \<open>None\<close> is a
  missing (null or undefined) argument. \<open>Object.values(percentages)\<close> is the list of the
  second components, and \<open>percentages[member.id] || 0\<close> is the lookup with default \<open>0\<close>.
\<close>

type_synonym percentages = "(string \<times> rat) list"

definition lookupPercentage :: "percentages \<Rightarrow> string \<Rightarrow> rat" where
  "lookupPercentage pcts k = orZero (case map_of pcts k of Some p \<Rightarrow> p | None \<Rightarrow> 0)"

definition calculateCustomSplit ::
  "evaluator \<Rightarrow> session option \<Rightarrow> percentages option \<Rightarrow> error + calculations" where
  "calculateCustomSplit run sess percentages =
     (case sess of
        None \<Rightarrow> Inl (Error ''Invalid parameters for custom split'')
      | Some s \<Rightarrow>
     (case members s of
        None \<Rightarrow> Inl (Error ''Invalid parameters for custom split'')
      | Some ms \<Rightarrow>
     (case percentages of
        None \<Rightarrow> Inl (Error ''Invalid parameters for custom split'')
      | Some pcts \<Rightarrow>
          (let totalPercentage = fold (\<lambda>p sum. sum + p) (map snd pcts) 0
           in if \<bar>totalPercentage - 100\<bar> > 1 / 100
              then Inl (Error ''Percentages must sum to 100%'')
              else let mcs = calculateMemberCosts run ms;
                       t = calculateSessionTotals mcs;
                       customCalculations =
                         map (\<lambda>m. finalise m
                                ((totalCost t * lookupPercentage pcts (mc_id m)) / 100)) mcs
                   in Inr \<lparr> memberCalculations = customCalculations,
                             calc_totals = t,
                             calc_summary = generateSummary customCalculations t \<rparr>))))"

section \<open>Payment suggestions\<close>

text \<open>
  \<open>formatCurrency\<close> for the currency set by the constructor. The number formatter of the
  runtime (\<open>Intl.NumberFormat('vi-VN').format\<close>) is a parameter.
\<close>

definition formatCurrency :: "(rat \<Rightarrow> string) \<Rightarrow> rat \<Rightarrow> string" where
  "formatCurrency nf amount_in = nf (roundNumber amount_in) @ '' VND''"

















section \<open>Concrete inputs\<close>



text \<open>
  Four members, the first with one item priced \<open>0.02\<close>, to be split in four quarters.
\<close>

definition fourMembers :: session where
  "fourMembers =
     \<lparr> members = Some
         [\<lparr> member_id = ''a'', member_name = ''An'',
            member_items = Some [\<lparr> item_name = ''bag'', price = JStr ''0.02'' \<rparr>],
            member_advance = JNum (Finite 0), member_bankInfo = JNull \<rparr>,
          \<lparr> member_id = ''b'', member_name = ''Binh'', member_items = Some [],
            member_advance = JNum (Finite 0), member_bankInfo = JNull \<rparr>,
          \<lparr> member_id = ''c'', member_name = ''Chi'', member_items = Some [],
            member_advance = JNum (Finite 0), member_bankInfo = JNull \<rparr>,
          \<lparr> member_id = ''d'', member_name = ''Dung'', member_items = Some [],
            member_advance = JNum (Finite 0), member_bankInfo = JNull \<rparr>],
       session_totals = None \<rparr>"


section \<open>Properties of the matching loop\<close>





section \<open>Cost analytics\<close>

record bucket =
  range_label :: string
  count :: nat
  percentage :: rat

record costAnalytics =
  ca_total :: rat
  ca_average :: rat
  ca_median :: rat
  ca_min :: rat
  ca_max :: rat
  distribution :: "bucket list"

text \<open>\<open>Math.min(...xs)\<close> and \<open>Math.max(...xs)\<close> for a list that is not empty.\<close>

definition Math_min :: "rat list \<Rightarrow> rat" where
  "Math_min xs = fold min xs (hd xs)"

definition Math_max :: "rat list \<Rightarrow> rat" where
  "Math_max xs = fold max xs (hd xs)"

text \<open>
  The test \<open>cost >= bucketMin && cost < bucketMax\<close> of bucket \<open>i\<close>. The labels of the
  buckets are made by the calculation engine's \<open>formatCurrency\<close>, to which the analytics
  manager passes the amounts on.
\<close>

definition inBucket :: "rat \<Rightarrow> rat \<Rightarrow> nat \<Rightarrow> rat \<Rightarrow> bool" where
  "inBucket lowest bucketSize i cost \<longleftrightarrow>
     cost \<ge> lowest + of_nat i * bucketSize \<and> cost < lowest + (of_nat i + 1) * bucketSize"

definition generateCostDistribution :: "(rat \<Rightarrow> string) \<Rightarrow> rat list \<Rightarrow> bucket list" where
  "generateCostDistribution nf costs =
     (if length costs = 0 then []
      else let lowest = Math_min costs;
               highest = Math_max costs;
               range = highest - lowest;
               buckets = min 10 (length costs);
               bucketSize = range / of_nat buckets
           in map (\<lambda>i. let bucketMin = lowest + of_nat i * bucketSize;
                           bucketMax = lowest + (of_nat i + 1) * bucketSize;
                           n = length (filter (inBucket lowest bucketSize i) costs)
                       in \<lparr> range_label = formatCurrency nf bucketMin @ '' - ''
                                            @ formatCurrency nf bucketMax,
                            count = n,
                            percentage = (of_nat n / of_nat (length costs)) * 100 \<rparr>)
                  [0 ..< buckets])"

text \<open>
  \<open>generateCostAnalytics\<close>: the positive total costs of the stored sessions, sorted in
  ascending order before the statistics are taken.
\<close>

definition sessionCosts :: "session list \<Rightarrow> rat list" where
  "sessionCosts sessions =
     filter (\<lambda>c. c > 0)
       (map (\<lambda>s. orZero (case session_totals s of None \<Rightarrow> 0 | Some t \<Rightarrow> totalCost t))
            sessions)"

definition generateCostAnalytics :: "(rat \<Rightarrow> string) \<Rightarrow> session list \<Rightarrow> costAnalytics" where
  "generateCostAnalytics nf sessions =
     (let costs = sessionCosts sessions
      in if length costs = 0
         then \<lparr> ca_total = 0, ca_average = 0, ca_median = 0, ca_min = 0, ca_max = 0,
                distribution = [] \<rparr>
         else let sorted_costs = sort costs;
                  total = fold (\<lambda>cost sum. sum + cost) sorted_costs 0
              in \<lparr> ca_total = total,
                   ca_average = total / of_nat (length sorted_costs),
                   ca_median = sorted_costs ! (length sorted_costs div 2),
                   ca_min = sorted_costs ! 0,
                   ca_max = sorted_costs ! (length sorted_costs - 1),
                   distribution = generateCostDistribution nf sorted_costs \<rparr>)"

text \<open>A stored session of which only the total cost matters here.\<close>

definition storedSession :: "rat \<Rightarrow> session" where
  "storedSession cost =
     \<lparr> members = None,
       session_totals = Some \<lparr> totalCost = cost, totalAdvance = 0, memberCount = 0,
                               totalItems = 0, averageSpent = 0, costPerPerson = 0,
                               remainingBalance = 0 \<rparr> \<rparr>"

section \<open>Sessions as objects: tip distribution\<close>

text \<open>
  \<open>calculateWithTip\<close> copies the session and writes to the copy, so for this function
  the session is modelled as the objects it consists of. An address is an index into the
  heap; a new object is put at the end. A session object refers to its array of members
  (or has none), the array refers to the member objects, and a member object refers to
  its array of items (or has none). Item objects are written by no function of the engine
  and are kept as values inside their array.
\<close>

type_synonym addr = nat

datatype cell =
    SessionObj "addr option" "totals option"
  | MembersArr "addr list"
  | MemberObj string string "addr option" jsval jsval
  | ItemsArr "item list"

type_synonym heap = "cell list"

definition lookup :: "heap \<Rightarrow> addr \<Rightarrow> cell option" where
  "lookup h a = (if a < length h then Some (h ! a) else None)"

definition alloc :: "heap \<Rightarrow> cell \<Rightarrow> heap \<times> addr" where
  "alloc h c = (h @ [c], length h)"

subsection \<open>Reading a session\<close>

text \<open>
  The session value that the engine sees through a reference. \<open>None\<close> means that the
  objects do not have the shape of a session (the engine then fails with a type error).
\<close>

definition readItems :: "heap \<Rightarrow> addr option \<Rightarrow> item list option option" where
  "readItems h r =
     (case r of
        None \<Rightarrow> Some None
      | Some a \<Rightarrow> (case lookup h a of
                    Some (ItemsArr xs) \<Rightarrow> Some (Some xs)
                  | _ \<Rightarrow> None))"

definition readMember :: "heap \<Rightarrow> addr \<Rightarrow> member option" where
  "readMember h a =
     (case lookup h a of
        Some (MemberObj i n r adv bank) \<Rightarrow>
          (case readItems h r of
             Some its \<Rightarrow> Some \<lparr> member_id = i, member_name = n, member_items = its,
                                 member_advance = adv, member_bankInfo = bank \<rparr>
           | None \<Rightarrow> None)
      | _ \<Rightarrow> None)"

definition readMembers :: "heap \<Rightarrow> addr option \<Rightarrow> member list option option" where
  "readMembers h r =
     (case r of
        None \<Rightarrow> Some None
      | Some a \<Rightarrow> (case lookup h a of
                    Some (MembersArr refs) \<Rightarrow>
                      (case those (map (readMember h) refs) of
                         Some ms \<Rightarrow> Some (Some ms)
                       | None \<Rightarrow> None)
                  | _ \<Rightarrow> None))"

definition readSession :: "heap \<Rightarrow> addr \<Rightarrow> session option" where
  "readSession h a =
     (case lookup h a of
        Some (SessionObj r t) \<Rightarrow>
          (case readMembers h r of
             Some ms \<Rightarrow> Some \<lparr> members = ms, session_totals = t \<rparr>
           | None \<Rightarrow> None)
      | _ \<Rightarrow> None)"

text \<open>\<open>calculateSession\<close> called with a reference, or with null.\<close>

definition calculateSessionAt ::
  "evaluator \<Rightarrow> heap \<Rightarrow> addr option \<Rightarrow> error + calculations" where
  "calculateSessionAt run h session =
     (case session of
        None \<Rightarrow> Inr (calculateSession run None)
      | Some a \<Rightarrow> (case readSession h a of
                    None \<Rightarrow> Inl (Error ''Failed to calculate session'')
                  | Some s \<Rightarrow> Inr (calculateSession run (Some s))))"

subsection \<open>The copy made by JSON.parse(JSON.stringify(session))\<close>

text \<open>A number that is not finite is written as null; every other value comes back as it was.\<close>

fun jsonValue :: "jsval \<Rightarrow> jsval" where
  "jsonValue (JNum (Finite q)) = JNum (Finite q)"
| "jsonValue (JNum x) = JNull"
| "jsonValue v = v"

definition jsonItem :: "item \<Rightarrow> item" where
  "jsonItem it = \<lparr> item_name = item_name it, price = jsonValue (price it) \<rparr>"

text \<open>
  Copying one member: the source heap \<open>h0\<close> is read, the new objects are added to \<open>h\<close>.
\<close>

definition cloneMember :: "heap \<Rightarrow> heap \<Rightarrow> addr \<Rightarrow> (heap \<times> addr) option" where
  "cloneMember h0 h a =
     (case lookup h0 a of
        Some (MemberObj i n r adv bank) \<Rightarrow>
          (case r of
             None \<Rightarrow> Some (alloc h (MemberObj i n None (jsonValue adv) (jsonValue bank)))
           | Some ia \<Rightarrow>
               (case lookup h0 ia of
                  Some (ItemsArr xs) \<Rightarrow>
                    (let (h1, ia') = alloc h (ItemsArr (map jsonItem xs))
                     in Some (alloc h1 (MemberObj i n (Some ia') (jsonValue adv)
                                          (jsonValue bank))))
                | _ \<Rightarrow> None))
      | _ \<Rightarrow> None)"

fun cloneMembers :: "heap \<Rightarrow> heap \<Rightarrow> addr list \<Rightarrow> (heap \<times> addr list) option" where
  "cloneMembers h0 h [] = Some (h, [])"
| "cloneMembers h0 h (a # as) =
     (case cloneMember h0 h a of
        None \<Rightarrow> None
      | Some (h1, a') \<Rightarrow>
          (case cloneMembers h0 h1 as of
             None \<Rightarrow> None
           | Some (h2, as') \<Rightarrow> Some (h2, a' # as')))"

definition jsonClone :: "heap \<Rightarrow> addr \<Rightarrow> (heap \<times> addr) option" where
  "jsonClone h a =
     (case lookup h a of
        Some (SessionObj r t) \<Rightarrow>
          (case r of
             None \<Rightarrow> Some (alloc h (SessionObj None t))
           | Some ma \<Rightarrow>
               (case lookup h ma of
                  Some (MembersArr refs) \<Rightarrow>
                    (case cloneMembers h h refs of
                       None \<Rightarrow> None
                     | Some (h1, refs') \<Rightarrow>
                         (let (h2, ma') = alloc h1 (MembersArr refs')
                          in Some (alloc h2 (SessionObj (Some ma') t))))
                | _ \<Rightarrow> None))
      | _ \<Rightarrow> None)"

subsection \<open>Adding the tip items\<close>

text \<open>
  \<open>if (!member.items) member.items = []; member.items.push(item)\<close> on the member object
  at address \<open>a\<close>.
\<close>

definition pushItem :: "item \<Rightarrow> heap \<Rightarrow> addr \<Rightarrow> heap option" where
  "pushItem it h a =
     (case lookup h a of
        Some (MemberObj i n r adv bank) \<Rightarrow>
          (case r of
             None \<Rightarrow>
               (let (h1, ia) = alloc h (ItemsArr []);
                    h2 = h1[a := MemberObj i n (Some ia) adv bank]
                in Some (h2[ia := ItemsArr ([] @ [it])]))
           | Some ia \<Rightarrow>
               (case lookup h ia of
                  Some (ItemsArr xs) \<Rightarrow> Some (h[ia := ItemsArr (xs @ [it])])
                | _ \<Rightarrow> None))
      | _ \<Rightarrow> None)"

text \<open>
  The two \<open>forEach\<close> loops over the members of the copy. The first pushes the same item
  for everybody; the second computes the item from the member's index.
\<close>

fun pushEach :: "(nat \<Rightarrow> item option) \<Rightarrow> nat \<Rightarrow> heap \<Rightarrow> addr list \<Rightarrow> heap option" where
  "pushEach mk index h [] = Some h"
| "pushEach mk index h (a # as) =
     (case mk index of
        None \<Rightarrow> None
      | Some it \<Rightarrow> (case pushItem it h a of
                     None \<Rightarrow> None
                   | Some h1 \<Rightarrow> pushEach mk (index + 1) h1 as))"

text \<open>
  The copy of a session reference; \<open>None\<close> is null, which the copy leaves as it is. The
  outer \<open>None\<close> of the result means that the objects do not have the shape of a session.
\<close>

definition cloneSession :: "heap \<Rightarrow> addr option \<Rightarrow> (heap \<times> addr option) option" where
  "cloneSession h session =
     (case session of
        None \<Rightarrow> Some (h, None)
      | Some a \<Rightarrow> (case jsonClone h a of
                    None \<Rightarrow> None
                  | Some (h1, a') \<Rightarrow> Some (h1, Some a')))"

text \<open>\<open>session.members\<close> as the list of references in the array; \<open>None\<close> when the session
  is null or has no members.\<close>

definition memberRefs :: "heap \<Rightarrow> addr option \<Rightarrow> addr list option" where
  "memberRefs h session =
     (case session of
        None \<Rightarrow> None
      | Some a \<Rightarrow>
          (case lookup h a of
             Some (SessionObj (Some ma) t) \<Rightarrow>
               (case lookup h ma of
                  Some (MembersArr refs) \<Rightarrow> Some refs
                | _ \<Rightarrow> None)
           | _ \<Rightarrow> None))"

definition tipShare :: "rat \<Rightarrow> nat \<Rightarrow> jsnum" where
  "tipShare tipValue n = (if n = 0 then PosInfinity else Finite (tipValue / of_nat n))"

subsection \<open>calculateWithTip\<close>

text \<open>
  The function returns its result, or the error it throws, together with the heap after
  the call.
\<close>

definition calculateWithTip ::
  "evaluator \<Rightarrow> heap \<Rightarrow> addr option \<Rightarrow> jsval \<Rightarrow> string \<Rightarrow> (error + calculations) \<times> heap" where
  "calculateWithTip run h session tipAmount tipDistribution =
     (let tipValue = orZero (parseExpression run tipAmount)
      in if tipValue \<le> 0 then (calculateSessionAt run h session, h)
         else case cloneSession h session of
           None \<Rightarrow> (Inl (TypeError ''Cannot read properties of the session''), h)
         | Some (h1, sessionWithTip) \<Rightarrow>
             if tipDistribution = ''equal'' then
               (case memberRefs h1 sessionWithTip of
                  None \<Rightarrow> (Inl (TypeError ''Cannot read properties of undefined''), h1)
                | Some refs \<Rightarrow>
                    (let tipPerPerson = tipShare tipValue (length refs)
                     in case pushEach (\<lambda>index. Some \<lparr> item_name = ''Tip (Equal Split)'',
                                                       price = JNum tipPerPerson \<rparr>)
                               0 h1 refs of
                          None \<Rightarrow> (Inl (TypeError ''Cannot read properties of a member''), h1)
                        | Some h2 \<Rightarrow> (calculateSessionAt run h2 sessionWithTip, h2)))
             else if tipDistribution = ''proportional'' then
               (case (case session of
                        None \<Rightarrow> None
                      | Some a \<Rightarrow> (case readSession h1 a of
                                     None \<Rightarrow> None
                                   | Some s \<Rightarrow> members s)) of
                  None \<Rightarrow> (Inl (TypeError ''members is not iterable''), h1)
                | Some ms \<Rightarrow>
                    (let memberCalcs = calculateMemberCosts run ms;
                         spent = fold (\<lambda>m sum. sum + mc_totalSpent m) memberCalcs 0
                     in if spent > 0 then
                          (case memberRefs h1 sessionWithTip of
                             None \<Rightarrow> (Inl (TypeError ''Cannot read properties of undefined''), h1)
                           | Some refs \<Rightarrow>
                               (case pushEach
                                       (\<lambda>index.
                                          if index < length memberCalcs
                                          then Some \<lparr> item_name = ''Tip (Proportional)'',
                                                      price = JNum (Finite
                                                        ((mc_totalSpent (memberCalcs ! index)
                                                            / spent) * tipValue)) \<rparr>
                                          else None)
                                       0 h1 refs of
                                  None \<Rightarrow>
                                    (Inl (TypeError ''Cannot read properties of a member''), h1)
                                | Some h2 \<Rightarrow>
                                    (calculateSessionAt run h2 sessionWithTip, h2)))
                        else (calculateSessionAt run h1 sessionWithTip, h1)))
             else (calculateSessionAt run h1 sessionWithTip, h1))"

text \<open>A session of two members as objects: the session, its array, Alice, her items, Bob.\<close>

definition sessionHeap :: heap where
  "sessionHeap =
     [ SessionObj (Some 1) None,
       MembersArr [2, 4],
       MemberObj ''m1'' ''Alice'' (Some 3) (JNum (Finite 0)) JNull,
       ItemsArr [\<lparr> item_name = ''beer'', price = JStr ''2*25000'' \<rparr>],
       MemberObj ''m2'' ''Bob'' None (JStr ''60000'') JNull ]"

subsection \<open>References held by new objects\<close>

text \<open>
  The references stored in an object, and the invariant of the copy: every object at an
  address from \<open>n\<close> on refers only to objects at addresses from \<open>n\<close> on.
\<close>

fun cellRefs :: "cell \<Rightarrow> addr set" where
  "cellRefs (SessionObj r t) = set_option r"
| "cellRefs (MembersArr refs) = set refs"
| "cellRefs (MemberObj i n r adv bank) = set_option r"
| "cellRefs (ItemsArr xs) = {}"

definition freshClosed :: "nat \<Rightarrow> heap \<Rightarrow> bool" where
  "freshClosed n h \<longleftrightarrow> (\<forall>a < length h. n \<le> a \<longrightarrow> (\<forall>r \<in> cellRefs (h ! a). n \<le> r))"

section \<open>Applying the suggestions\<close>








section \<open>Rounding and parsing: basic facts\<close>

lemma Math_round_of_int: "Math_round (of_int k) = of_int k"
proof -
  have "\<lfloor>(of_int k :: rat) + 1 / 2\<rfloor> = k"
    by (rule floor_unique) simp_all
  then show ?thesis by (simp add: Math_round_def)
qed

lemma roundNumber_of_int: "roundNumber (of_int k) = of_int k"
proof -
  have "(of_int k :: rat) * 10 ^ 2 = of_int (k * 100)" by simp
  then show ?thesis
    unfolding roundNumber_def roundingMethod_def precision_def Let_def
    by (simp only: roundingMethod.case Math_round_of_int) simp
qed


lemma roundNumber_numeral [simp]: "roundNumber (numeral n) = numeral n"
  using roundNumber_of_int [of "numeral n"] by simp

lemma roundNumber_zero [simp]: "roundNumber 0 = 0"
  using roundNumber_of_int [of 0] by simp


section \<open>Scenario A\<close>







section \<open>Sums and rounding\<close>




lemma totalSpent_finalise [simp]: "totalSpent (finalise m share) = mc_totalSpent m"
  by (simp add: finalise_def Let_def split: prod.splits)


section \<open>The total cost and the members' spending\<close>



section \<open>parseExpression never fails\<close>

lemma failing_texts:
  "trim ''  '' = []"
  "\<not> isValidExpression (cleanExpression ''(2+3'')"
  "cleanExpression ''2+*3'' = ''2+*3''"
  "arithmetic ''return (2+*3)'' = Threw"
  "arithmetic ''return (1/0)'' = Returned (JNum PosInfinity)"
  "parseExpression_try arithmetic (JNum (Finite 60000))
     = Inl (TypeError ''expression.trim is not a function'')"
  by code_simp+

text \<open>
  C3. \<open>parseExpression\<close> returns a number for every evaluator and every input; no error
  of its \<open>try\<close> block reaches the caller. It returns 0 for a missing, null or empty
  input and for a blank text; it returns 0 when the cleaned text fails the validity check
  (characters outside the allowed set, unbalanced parentheses), when the evaluation throws
  or gives anything but a finite number (as \<open>1/0\<close> does), and in general whenever the
  \<open>try\<close> block ends in an error.
\<close>

theorem parseExpression_zero_on_failure:
  "(v = JUndefined \<or> v = JNull \<or> v = JStr [] \<longrightarrow> parseExpression run v = 0)
 \<and> (trim s1 = [] \<longrightarrow> parseExpression run (JStr s1) = 0)
 \<and> (\<not> isValidExpression (cleanExpression s2) \<longrightarrow> parseExpression run (JStr s2) = 0)
 \<and> ((\<forall>q. run (''return ('' @ cleanExpression s3 @ '')'') \<noteq> Returned (JNum (Finite q)))
       \<longrightarrow> parseExpression run (JStr s3) = 0)
 \<and> (run ''return (1/0)'' = Returned (JNum PosInfinity)
       \<longrightarrow> parseExpression run (JStr ''1/0'') = 0)
 \<and> (parseExpression_try run w = Inl e \<longrightarrow> parseExpression run w = 0)"
proof (intro conjI impI)
  assume "v = JUndefined \<or> v = JNull \<or> v = JStr []"
  then show "parseExpression run v = 0"
    by (auto simp add: parseExpression_def parseExpression_try_def)
next
  assume "trim s1 = []"
  then show "parseExpression run (JStr s1) = 0"
    by (simp add: parseExpression_def parseExpression_try_def)
next
  assume "\<not> isValidExpression (cleanExpression s2)"
  then show "parseExpression run (JStr s2) = 0"
    by (simp add: parseExpression_def parseExpression_try_def Let_def)
next
  assume "\<forall>q. run (''return ('' @ cleanExpression s3 @ '')'') \<noteq> Returned (JNum (Finite q))"
  then have "\<exists>e. evaluateExpression run (cleanExpression s3) = Inl e"
    by (auto simp add: evaluateExpression_def
          split: completion.splits jsval.splits jsnum.splits)
  then show "parseExpression run (JStr s3) = 0"
    by (auto simp add: parseExpression_def parseExpression_try_def Let_def)
next
  assume "run ''return (1/0)'' = Returned (JNum PosInfinity)"
  moreover have "cleanExpression ''1/0'' = ''1/0''" by code_simp
  ultimately have "\<exists>e. evaluateExpression run (cleanExpression ''1/0'') = Inl e"
    by (simp add: evaluateExpression_def)
  then show "parseExpression run (JStr ''1/0'') = 0"
    by (auto simp add: parseExpression_def parseExpression_try_def Let_def)
next
  assume "parseExpression_try run w = Inl e"
  then show "parseExpression run w = 0"
    by (simp add: parseExpression_def)
qed

theorem parseExpression_zero_on_failure_witness:
  "parseExpression arithmetic JNull = 0
 \<and> trim ''  '' = [] \<and> parseExpression arithmetic (JStr ''  '') = 0
 \<and> \<not> isValidExpression (cleanExpression ''(2+3'')
 \<and> parseExpression arithmetic (JStr ''(2+3'') = 0
 \<and> arithmetic ''return (2+*3)'' = Threw \<and> parseExpression arithmetic (JStr ''2+*3'') = 0
 \<and> arithmetic ''return (1/0)'' = Returned (JNum PosInfinity)
 \<and> parseExpression arithmetic (JStr ''1/0'') = 0
 \<and> parseExpression_try arithmetic (JNum (Finite 60000))
       = Inl (TypeError ''expression.trim is not a function'')
 \<and> parseExpression arithmetic (JNum (Finite 60000)) = 0"
  using parseExpression_zero_on_failure
          [of JNull arithmetic "''  ''" "''(2+3''" "''2+*3''" "JNum (Finite 60000)"
              "TypeError ''expression.trim is not a function''"]
        failing_texts
  by simp

section \<open>Custom split: rejected calls\<close>



section \<open>Custom split: a member without a percentage\<close>



section \<open>Custom split: the sum of the shares\<close>

lemma orZero_id [simp]: "orZero x = x"
  by (simp add: orZero_def)



lemma amountPerPerson_finalise [simp]: "amountPerPerson (finalise m share) = roundNumber share"
  by (simp add: finalise_def Let_def split: prod.splits)



text \<open>
  A percentage entered under a key that is no member's id is lost as well: with the whole
  100 percent under such a key every share is 0, whatever the total cost.
\<close>

lemma custom_split_foreign_key:
  "\<not> isl (calculateCustomSplit arithmetic (Some fourMembers) (Some [(''z'', 100)]))
   \<and> map amountPerPerson (memberCalculations
        (projr (calculateCustomSplit arithmetic (Some fourMembers) (Some [(''z'', 100)]))))
       = [0, 0, 0, 0]
   \<and> totalCost (calc_totals
        (projr (calculateCustomSplit arithmetic (Some fourMembers) (Some [(''z'', 100)]))))
       = 1 / 50"
  by code_simp



section \<open>The matching loop: number of iterations\<close>





section \<open>The matching loop: what the suggestions settle\<close>


















































section \<open>The cost distribution\<close>

lemma Math_min_Min: "xs \<noteq> [] \<Longrightarrow> Math_min xs = Min (set xs)"
proof (cases xs)
  case Nil
  assume "xs \<noteq> []"
  with Nil show ?thesis by simp
next
  case (Cons a list)
  have "Min (set (a # list)) = fold min list a" by (rule Min.set_eq_fold)
  with Cons show ?thesis by (simp add: Math_min_def)
qed

lemma Math_max_Max: "xs \<noteq> [] \<Longrightarrow> Math_max xs = Max (set xs)"
proof (cases xs)
  case Nil
  assume "xs \<noteq> []"
  with Nil show ?thesis by simp
next
  case (Cons a list)
  have "Max (set (a # list)) = fold max list a" by (rule Max.set_eq_fold)
  with Cons show ?thesis by (simp add: Math_max_def)
qed

lemma maximum_in_no_bucket:
  assumes "costs \<noteq> []" and "i < min 10 (length costs)"
  shows "\<not> inBucket (Math_min costs)
            ((Math_max costs - Math_min costs) / of_nat (min 10 (length costs))) i
            (Math_max costs)"
proof -
  let ?b = "min 10 (length costs)"
  let ?lo = "Math_min costs" and ?hi = "Math_max costs"
  have b: "0 < ?b" using assms(1) by simp
  have "hd costs \<in> set costs" using assms(1) by simp
  then have "Min (set costs) \<le> hd costs" "hd costs \<le> Max (set costs)" by simp_all
  then have le: "?lo \<le> ?hi"
    using assms(1) by (simp add: Math_min_Min Math_max_Max)
  have "(of_nat i + 1) * ((?hi - ?lo) / of_nat ?b) \<le> of_nat ?b * ((?hi - ?lo) / of_nat ?b)"
  proof (rule mult_right_mono)
    have "Suc i \<le> ?b" using assms(2) by simp
    then have "(of_nat (Suc i) :: rat) \<le> of_nat ?b" by (simp only: of_nat_le_iff)
    then show "(of_nat i + 1 :: rat) \<le> of_nat ?b" by simp
    show "0 \<le> (?hi - ?lo) / of_nat ?b" using le by simp
  qed
  also have "\<dots> = ?hi - ?lo" using b by simp
  finally show ?thesis by (simp add: inBucket_def)
qed

text \<open>
  C7 at three inputs. The upper bound of every bucket is exclusive, the last one included,
  so the largest cost is counted nowhere (lemma \<open>maximum_in_no_bucket\<close>): of the costs 10
  and 20 only 10 is counted; a single cost 5 gives one bucket with count 0; three sessions
  of cost 5 give three empty buckets of width 0.
\<close>

theorem cost_distribution_misses_maximum:
  "map count (distribution (generateCostAnalytics nf [storedSession 20, storedSession 10]))
     = [1, 0]
   \<and> map count (distribution (generateCostAnalytics nf [storedSession 5])) = [0]
   \<and> map count (distribution
        (generateCostAnalytics nf [storedSession 5, storedSession 5, storedSession 5]))
     = [0, 0, 0]"
  by code_simp

section \<open>calculateWithTip leaves the session as it was\<close>

lemma freshClosed_append:
  assumes "freshClosed n h" "\<forall>r \<in> cellRefs c. n \<le> r"
  shows "freshClosed n (h @ [c])"
  using assms by (auto simp add: freshClosed_def nth_append)

lemma freshClosed_update:
  assumes "freshClosed n h" "\<forall>r \<in> cellRefs c. n \<le> r"
  shows "freshClosed n (h[a := c])"
  unfolding freshClosed_def
proof (intro allI impI ballI)
  fix b r
  assume b: "b < length (h[a := c])" "n \<le> b" and r: "r \<in> cellRefs (h[a := c] ! b)"
  show "n \<le> r"
  proof (cases "b = a")
    case True
    then have "h[a := c] ! b = c" using b(1) by simp
    then show ?thesis using r assms(2) by simp
  next
    case False
    then have "h[a := c] ! b = h ! b" by simp
    then show ?thesis using r b assms(1) by (auto simp add: freshClosed_def)
  qed
qed

lemma freshClosed_same: "freshClosed (length h) h"
  by (simp add: freshClosed_def)

lemma pushItem_frame:
  assumes "pushItem it h a = Some h'" "n \<le> a" "freshClosed n h"
  shows "take n h' = take n h \<and> freshClosed n h' \<and> length h \<le> length h'"
proof -
  from assms(1) obtain i nm r adv bank where c: "lookup h a = Some (MemberObj i nm r adv bank)"
    by (auto simp add: pushItem_def split: option.splits cell.splits)
  then have a: "a < length h" "h ! a = MemberObj i nm r adv bank"
    by (auto simp add: lookup_def split: if_splits)
  show ?thesis
  proof (cases r)
    case None
    then have h': "h' = ((h @ [ItemsArr []])[a := MemberObj i nm (Some (length h)) adv bank])
                         [length h := ItemsArr [it]]"
      using assms(1) c by (simp add: pushItem_def alloc_def)
    have f1: "freshClosed n (h @ [ItemsArr []])"
      by (rule freshClosed_append [OF assms(3)]) simp
    have f2: "freshClosed n ((h @ [ItemsArr []])[a := MemberObj i nm (Some (length h)) adv bank])"
      by (rule freshClosed_update [OF f1]) (use assms(2) a(1) in simp)
    have "freshClosed n h'"
      unfolding h' by (rule freshClosed_update [OF f2]) simp
    moreover have "take n h' = take n h"
      unfolding h' using assms(2) a(1) by simp
    moreover have "length h \<le> length h'" unfolding h' by simp
    ultimately show ?thesis by blast
  next
    case (Some ia)
    then obtain xs where x: "lookup h ia = Some (ItemsArr xs)" and h': "h' = h[ia := ItemsArr (xs @ [it])]"
      using assms(1) c by (auto simp add: pushItem_def split: option.splits cell.splits)
    have "n \<le> ia"
      using assms(2,3) a Some by (auto simp add: freshClosed_def)
    then have "take n h' = take n h" unfolding h' by simp
    moreover have "freshClosed n h'"
      unfolding h' by (rule freshClosed_update [OF assms(3)]) simp
    moreover have "length h \<le> length h'" unfolding h' by simp
    ultimately show ?thesis by blast
  qed
qed

lemma pushEach_frame:
  assumes "pushEach mk index h refs = Some h'" "\<forall>a \<in> set refs. n \<le> a" "freshClosed n h"
  shows "take n h' = take n h \<and> freshClosed n h' \<and> length h \<le> length h'"
  using assms
proof (induction refs arbitrary: index h)
  case Nil
  then show ?case by simp
next
  case (Cons a refs)
  from Cons.prems(1) obtain it h1 where s: "mk index = Some it" "pushItem it h a = Some h1"
      "pushEach mk (index + 1) h1 refs = Some h'"
    by (auto split: option.splits)
  have na: "n \<le> a" and nr: "\<forall>a \<in> set refs. n \<le> a"
    using Cons.prems(2) by simp_all
  have one: "take n h1 = take n h \<and> freshClosed n h1 \<and> length h \<le> length h1"
    by (rule pushItem_frame [OF s(2) na Cons.prems(3)])
  then have f1: "freshClosed n h1" by simp
  have "take n h' = take n h1 \<and> freshClosed n h' \<and> length h1 \<le> length h'"
    by (rule Cons.IH [OF s(3) nr f1])
  with one show ?case by simp
qed

lemma cloneMember_frame:
  assumes "cloneMember h0 h a = Some (h1, a')" "freshClosed n h" "n \<le> length h"
  shows "prefix h h1 \<and> freshClosed n h1 \<and> n \<le> a' \<and> a' < length h1"
proof -
  from assms(1) obtain i nm r adv bank where c: "lookup h0 a = Some (MemberObj i nm r adv bank)"
    by (auto simp add: cloneMember_def split: option.splits cell.splits)
  show ?thesis
  proof (cases r)
    case None
    then have e: "h1 = h @ [MemberObj i nm None (jsonValue adv) (jsonValue bank)]" "a' = length h"
      using assms(1) c by (simp_all add: cloneMember_def alloc_def)
    have "freshClosed n h1"
      unfolding e by (rule freshClosed_append [OF assms(2)]) simp
    then show ?thesis using e assms(3) by simp
  next
    case (Some ia)
    then obtain xs where e: "lookup h0 ia = Some (ItemsArr xs)"
        "h1 = (h @ [ItemsArr (map jsonItem xs)])
                @ [MemberObj i nm (Some (length h)) (jsonValue adv) (jsonValue bank)]"
        "a' = Suc (length h)"
      using assms(1) c
      by (auto simp add: cloneMember_def alloc_def Let_def split: option.splits cell.splits)
    have f1: "freshClosed n (h @ [ItemsArr (map jsonItem xs)])"
      by (rule freshClosed_append [OF assms(2)]) simp
    have "freshClosed n h1"
      unfolding e(2) by (rule freshClosed_append [OF f1]) (use assms(3) in simp)
    then show ?thesis using e assms(3) by simp
  qed
qed

lemma cloneMembers_frame:
  assumes "cloneMembers h0 h refs = Some (h1, refs')" "freshClosed n h" "n \<le> length h"
  shows "prefix h h1 \<and> freshClosed n h1 \<and> (\<forall>a \<in> set refs'. n \<le> a)"
  using assms
proof (induction refs arbitrary: h refs')
  case Nil
  then show ?case by simp
next
  case (Cons a refs)
  from Cons.prems(1) obtain h2 a' rs where s: "cloneMember h0 h a = Some (h2, a')"
      "cloneMembers h0 h2 refs = Some (h1, rs)" "refs' = a' # rs"
    by (auto split: option.splits)
  have one: "prefix h h2 \<and> freshClosed n h2 \<and> n \<le> a' \<and> a' < length h2"
    using cloneMember_frame [OF s(1) Cons.prems(2,3)] .
  then have "n \<le> length h2" by simp
  then have "prefix h2 h1 \<and> freshClosed n h1 \<and> (\<forall>a \<in> set rs. n \<le> a)"
    using Cons.IH [OF s(2)] one by simp
  with one s(3) show ?case by (auto intro: prefix_order.trans)
qed

lemma jsonClone_frame:
  assumes "jsonClone h a = Some (h1, a')"
  shows "prefix h h1 \<and> freshClosed (length h) h1 \<and> length h \<le> a' \<and> a' < length h1"
proof -
  from assms obtain r t where c: "lookup h a = Some (SessionObj r t)"
    by (auto simp add: jsonClone_def split: option.splits cell.splits)
  show ?thesis
  proof (cases r)
    case None
    then have "h1 = h @ [SessionObj None t]" "a' = length h"
      using assms c by (simp_all add: jsonClone_def alloc_def)
    then show ?thesis
      by (auto intro!: freshClosed_append freshClosed_same)
  next
    case (Some ma)
    then obtain refs h2 refs' where m: "lookup h ma = Some (MembersArr refs)"
        "cloneMembers h h refs = Some (h2, refs')"
        "h1 = (h2 @ [MembersArr refs']) @ [SessionObj (Some (length h2)) t]"
        "a' = Suc (length h2)"
      using assms c
      by (auto simp add: jsonClone_def alloc_def Let_def split: option.splits cell.splits)
    have two: "prefix h h2 \<and> freshClosed (length h) h2 \<and> (\<forall>a \<in> set refs'. length h \<le> a)"
      using cloneMembers_frame [OF m(2) freshClosed_same] by simp
    then have len: "length h \<le> length h2" by (auto dest: prefix_length_le)
    have f1: "freshClosed (length h) (h2 @ [MembersArr refs'])"
      by (rule freshClosed_append) (use two in simp_all)
    have "freshClosed (length h) h1"
      unfolding m(3) by (rule freshClosed_append [OF f1]) (use len in simp)
    moreover have "prefix h h1"
      unfolding m(3) using two by (auto intro: prefix_order.trans)
    ultimately show ?thesis using len m(3,4) by simp
  qed
qed

lemma memberRefs_fresh:
  assumes "memberRefs h (Some a) = Some refs" "n \<le> a" "freshClosed n h"
  shows "\<forall>r \<in> set refs. n \<le> r"
proof -
  from assms(1) obtain ma t where c: "lookup h a = Some (SessionObj (Some ma) t)"
      "lookup h ma = Some (MembersArr refs)"
    by (auto simp add: memberRefs_def split: option.splits cell.splits)
  then have "a < length h" "h ! a = SessionObj (Some ma) t" "ma < length h" "h ! ma = MembersArr refs"
    by (auto simp add: lookup_def split: if_splits)
  then show ?thesis
    using assms(2,3) unfolding freshClosed_def
    by (metis cellRefs.simps(1) cellRefs.simps(2) option.set_intros)
qed

lemma prefix_take: "prefix h h1 \<Longrightarrow> take (length h) h1 = h"
  by (auto simp add: prefix_def)

lemma push_after_clone:
  assumes "cloneSession h session = Some (h1, sessionWithTip)"
      and "memberRefs h1 sessionWithTip = Some refs"
      and "pushEach mk index h1 refs = Some h2"
  shows "take (length h) h2 = h"
proof -
  from assms(2) obtain a' where s: "sessionWithTip = Some a'"
    by (cases sessionWithTip) (simp_all add: memberRefs_def)
  with assms(1) obtain a where "jsonClone h a = Some (h1, a')"
    by (auto simp add: cloneSession_def split: option.splits)
  then have c: "prefix h h1" "freshClosed (length h) h1" "length h \<le> a'"
    using jsonClone_frame by blast+
  have "\<forall>r \<in> set refs. length h \<le> r"
    using memberRefs_fresh [OF assms(2) [unfolded s] c(3) c(2)] .
  then have "take (length h) h2 = take (length h) h1"
    using pushEach_frame [OF assms(3) _ c(2)] by simp
  then show ?thesis using c(1) by (simp add: prefix_take)
qed

lemma cloneSession_prefix:
  "cloneSession h session = Some (h1, sessionWithTip) \<Longrightarrow> take (length h) h1 = h"
  by (auto simp add: cloneSession_def prefix_take split: option.splits dest: jsonClone_frame)

lemma calculateWithTip_prefix:
  assumes "calculateWithTip run h session tipAmount tipDistribution = (res, h')"
  shows "take (length h) h' = h"
  using assms
  unfolding calculateWithTip_def Let_def
  by (auto split: if_splits option.splits prod.splits
        dest: cloneSession_prefix push_after_clone)

lemma lookup_prefix: "prefix h h' \<Longrightarrow> lookup h a = Some c \<Longrightarrow> lookup h' a = Some c"
  by (auto simp add: lookup_def prefix_def nth_append split: if_splits)

lemma readItems_prefix: "prefix h h' \<Longrightarrow> readItems h r = Some its \<Longrightarrow> readItems h' r = Some its"
  by (auto simp add: readItems_def split: option.splits cell.splits dest: lookup_prefix)

lemma readMember_prefix:
  assumes "prefix h h'" "readMember h a = Some m"
  shows "readMember h' a = Some m"
proof -
  from assms(2) obtain i n r adv bank its where
      c: "lookup h a = Some (MemberObj i n r adv bank)" "readItems h r = Some its"
      "m = \<lparr> member_id = i, member_name = n, member_items = its,
             member_advance = adv, member_bankInfo = bank \<rparr>"
    by (auto simp add: readMember_def split: option.splits cell.splits)
  have "lookup h' a = Some (MemberObj i n r adv bank)" "readItems h' r = Some its"
    using assms(1) c(1,2) by (auto dest: lookup_prefix readItems_prefix)
  then show ?thesis using c(3) by (simp add: readMember_def)
qed

lemma those_readMember_prefix:
  "prefix h h' \<Longrightarrow> those (map (readMember h) refs) = Some ms
     \<Longrightarrow> those (map (readMember h') refs) = Some ms"
proof (induction refs arbitrary: ms)
  case Nil
  then show ?case by simp
next
  case (Cons a refs)
  then show ?case
    by (auto split: option.splits dest: readMember_prefix)
qed

lemma readMembers_prefix:
  assumes "prefix h h'" "readMembers h r = Some ms"
  shows "readMembers h' r = Some ms"
proof (cases r)
  case None
  then show ?thesis using assms(2) by (simp add: readMembers_def)
next
  case (Some ma)
  with assms(2) obtain refs xs where
      c: "lookup h ma = Some (MembersArr refs)" "those (map (readMember h) refs) = Some xs"
      "ms = Some xs"
    by (fastforce simp add: readMembers_def split: option.splits cell.splits)
  have "lookup h' ma = Some (MembersArr refs)" "those (map (readMember h') refs) = Some xs"
    using assms(1) c(1,2) by (auto dest: lookup_prefix those_readMember_prefix)
  then show ?thesis using Some c(3) by (simp add: readMembers_def)
qed

lemma readSession_prefix:
  assumes "prefix h h'" "readSession h a = Some s"
  shows "readSession h' a = Some s"
proof -
  from assms(2) obtain r t ms where
      c: "lookup h a = Some (SessionObj r t)" "readMembers h r = Some ms"
      "s = \<lparr> members = ms, session_totals = t \<rparr>"
    by (auto simp add: readSession_def split: option.splits cell.splits)
  have "lookup h' a = Some (SessionObj r t)" "readMembers h' r = Some ms"
    using assms(1) c(1,2) by (auto dest: lookup_prefix readMembers_prefix)
  then show ?thesis using c(3) by (simp add: readSession_def)
qed

lemma take_prefix: "take (length h) h' = h \<Longrightarrow> prefix h h'"
  by (metis take_is_prefix)

text \<open>
  C9. Whatever the session, the tip and the distribution mode, and whether the call returns
  a result or throws, every object that existed before the call to \<open>calculateWithTip\<close>
  is unchanged after it: the tip items are pushed only to objects created by the copy.
  In particular a session read before the call reads the same after it, members and items
  included.
\<close>

theorem calculateWithTip_leaves_session_unchanged:
  assumes "calculateWithTip run h session tipAmount tipDistribution = (res, h')"
  shows "take (length h) h' = h
       \<and> (\<forall>a s. readSession h a = Some s \<longrightarrow> readSession h' a = Some s)"
proof -
  have t: "take (length h) h' = h"
    using assms by (rule calculateWithTip_prefix)
  then have "prefix h h'" by (rule take_prefix)
  then show ?thesis using t readSession_prefix by blast
qed

lemma tip_run:
  "length sessionHeap < length (snd (calculateWithTip arithmetic sessionHeap (Some 0) (JStr ''10000'') ''equal''))"
  "readSession sessionHeap 0 \<noteq> None"
  "isl (fst (calculateWithTip arithmetic sessionHeap (Some 0) (JStr ''10000'') ''equal'')) = False"
  by code_simp+

theorem calculateWithTip_leaves_session_unchanged_witness:
  "take (length sessionHeap)
        (snd (calculateWithTip arithmetic sessionHeap (Some 0) (JStr ''10000'') ''equal''))
     = sessionHeap
   \<and> readSession sessionHeap 0 \<noteq> None
   \<and> readSession (snd (calculateWithTip arithmetic sessionHeap (Some 0) (JStr ''10000'') ''equal'')) 0
       = readSession sessionHeap 0
   \<and> length sessionHeap
       < length (snd (calculateWithTip arithmetic sessionHeap (Some 0) (JStr ''10000'') ''equal''))"
proof -
  let ?x = "calculateWithTip arithmetic sessionHeap (Some 0) (JStr ''10000'') ''equal''"
  have "?x = (fst ?x, snd ?x)" by simp
  from calculateWithTip_leaves_session_unchanged [OF this] tip_run(1,2)
  show ?thesis by auto
qed

end
